theory Spec2Isabelle
  imports Main
begin

section \<open>JavaScript values and objects\<close>

text \<open>
  The handlers of \<^verbatim>\<open>server.js\<close> work on JSON data: the request body, the user records of
  \<^verbatim>\<open>data/users.json\<close> and the session's \<^verbatim>\<open>userId\<close>. Values are the primitive JSON
  values together with \<^verbatim>\<open>undefined\<close>; numbers are restricted to integers and nested
  objects are left out, so that \<^verbatim>\<open>===\<close> is equality of values.
\<close>

datatype jsval = JUndefined | JNull | JBool bool | JNum int | JStr string

text \<open>An object maps property names to values; a property may hold \<^verbatim>\<open>undefined\<close>.\<close>

type_synonym jsobj = "string \<rightharpoonup> jsval"

text \<open>Property access \<^verbatim>\<open>obj.k\<close>: a missing property reads as \<^verbatim>\<open>undefined\<close>.\<close>

definition get :: "jsobj \<Rightarrow> string \<Rightarrow> jsval" where
  "get obj k = (case obj k of None \<Rightarrow> JUndefined | Some v \<Rightarrow> v)"

text \<open>The truth value of a primitive in a condition such as \<^verbatim>\<open>if (!req.session.userId)\<close>.\<close>

fun truthy :: "jsval \<Rightarrow> bool" where
  "truthy JUndefined = False"
| "truthy JNull = False"
| "truthy (JBool b) = b"
| "truthy (JNum n) = (n \<noteq> 0)"
| "truthy (JStr s) = (s \<noteq> [])"

text \<open>
  \<^verbatim>\<open>JSON.stringify\<close> omits the properties of an object whose value is \<^verbatim>\<open>undefined\<close>;
  this is the object that \<^verbatim>\<open>JSON.parse\<close> reads back from the written text.
\<close>

definition JSON_stringify :: "jsobj \<Rightarrow> jsobj" where
  "JSON_stringify obj = (\<lambda>k. if obj k = Some JUndefined then None else obj k)"

text \<open>The rest pattern \<^verbatim>\<open>const { password_hash, ...info } = user\<close>.\<close>

definition rest_without :: "string \<Rightarrow> jsobj \<Rightarrow> jsobj" where
  "rest_without k obj = obj(k := None)"

section \<open>The environment of one request\<close>

text \<open>
  What a handler obtains from outside the repository during one request: whether
  \<^verbatim>\<open>fs.readFileSync\<close> throws, the identifier \<^verbatim>\<open>uuidv4()\<close> returns, and the results of the
  \<^verbatim>\<open>bcrypt\<close> package (\<open>None\<close> when the returned promise rejects). The \<^verbatim>\<open>bcrypt\<close>
  results are parameters: the package is no part of the repository.
\<close>

record env =
  read_throws :: bool
  uuidv4 :: string
  bcrypt_hash :: "jsval \<Rightarrow> string option"
  bcrypt_compare :: "jsval \<Rightarrow> jsval \<Rightarrow> bool option"

section \<open>The store: \<^verbatim>\<open>data/users.json\<close>\<close>

text \<open>
  The text of the file is empty, or the JSON text of an array of user objects, or a text
  that \<^verbatim>\<open>JSON.parse\<close> rejects. A text that parses is assumed to hold an array of
  objects, as every text written by \<^verbatim>\<open>writeAll\<close> does.
\<close>

datatype file_text = Json_array "jsobj list" | Empty_text | Malformed

text \<open>
  \<^verbatim>\<open>readAll\<close> of \<^verbatim>\<open>src/Syncveil/simpleStore-DESKTOP-N9FJDQI.js\<close>: a failure of the read
  or of the parse is caught and the empty list is returned. The result is \<open>None\<close> when
  the function throws, which this one never does.
\<close>

definition readAll :: "env \<Rightarrow> file_text \<Rightarrow> jsobj list option" where
  "readAll e file =
     (if read_throws e then Some []
      else case file of
             Json_array users \<Rightarrow> Some users
           | Empty_text \<Rightarrow> Some []
           | Malformed \<Rightarrow> Some [])"

text \<open>
  \<^verbatim>\<open>readAll\<close> of the store module at the head of \<^verbatim>\<open>src/unnamed/part_001\<close>: no
  \<^verbatim>\<open>try\<close>, so a failure of the read or of the parse is thrown to the caller.
\<close>

definition readAll_p1 :: "env \<Rightarrow> file_text \<Rightarrow> jsobj list option" where
  "readAll_p1 e file =
     (if read_throws e then None
      else case file of
             Json_array users \<Rightarrow> Some users
           | Empty_text \<Rightarrow> Some []
           | Malformed \<Rightarrow> None)"

text \<open>
  \<^verbatim>\<open>writeAll\<close>, the same in both store modules: the file becomes the JSON text of the
  array. The write itself is taken to succeed.
\<close>

definition writeAll :: "jsobj list \<Rightarrow> file_text" where
  "writeAll arr = Json_array (map JSON_stringify arr)"

section \<open>Sessions and responses\<close>

text \<open>
  The caller's session as \<^verbatim>\<open>express-session\<close> presents it in \<^verbatim>\<open>req.session\<close>: the
  handlers use its \<^verbatim>\<open>userId\<close> property only. After \<^verbatim>\<open>req.session.destroy()\<close> the
  caller's next request starts from a new session without a \<^verbatim>\<open>userId\<close>.
\<close>

record session =
  userId :: jsval

definition destroy :: "session \<Rightarrow> session" where
  "destroy s = \<lparr>userId = JUndefined\<rparr>"

datatype body = Error_body string | Success_body | User_body jsobj

text \<open>
  A handler answers with a status and a JSON body, or an exception (a rejected promise,
  for an \<^verbatim>\<open>async\<close> handler) leaves the handler without an answer of its own.
\<close>

datatype outcome = Response nat body | Escapes

section \<open>The handlers of \<^verbatim>\<open>src/Syncveil/server.js\<close>\<close>

text \<open>
  Every handler takes the \<^verbatim>\<open>readAll\<close> of the store module that \<^verbatim>\<open>require('./simpleStore')\<close>
  resolves to, the environment of the request, the request body, the file and the caller's
  session, and returns its outcome with the file and the session afterwards.
\<close>

text \<open>The user object that \<^verbatim>\<open>/api/signup\<close> builds.\<close>

definition new_user :: "env \<Rightarrow> jsobj \<Rightarrow> string \<Rightarrow> jsobj" where
  "new_user e req_body password_hash =
     [''id'' \<mapsto> JStr (uuidv4 e),
      ''name'' \<mapsto> get req_body ''name'',
      ''age'' \<mapsto> get req_body ''age'',
      ''email'' \<mapsto> get req_body ''email'',
      ''mobile'' \<mapsto> get req_body ''mobile'',
      ''gender'' \<mapsto> get req_body ''gender'',
      ''address'' \<mapsto> get req_body ''address'',
      ''password_hash'' \<mapsto> JStr password_hash]"

text \<open>
  \<^verbatim>\<open>/api/signup\<close> up to its \<^verbatim>\<open>await\<close>: the file is read and searched for the email.
  The result is the handler's outcome when it ends here, or the array \<^verbatim>\<open>users\<close> it
  holds while it waits for \<^verbatim>\<open>bcrypt.hash\<close>.
\<close>

definition signup_check ::
  "(env \<Rightarrow> file_text \<Rightarrow> jsobj list option) \<Rightarrow> env \<Rightarrow> jsobj \<Rightarrow> file_text \<Rightarrow> outcome + jsobj list" where
  "signup_check rd e req_body file =
     (case rd e file of
        None \<Rightarrow> Inl Escapes
      | Some users \<Rightarrow>
          (case find (\<lambda>u. get u ''email'' = get req_body ''email'') users of
             Some u \<Rightarrow> Inl (Response 400 (Error_body ''Email already exists''))
           | None \<Rightarrow> Inr users))"

text \<open>
  \<^verbatim>\<open>/api/signup\<close> after its \<^verbatim>\<open>await\<close>: the new user is pushed on the array read before
  the \<^verbatim>\<open>await\<close> and the array is written.
\<close>

definition signup_commit ::
  "env \<Rightarrow> jsobj \<Rightarrow> jsobj list \<Rightarrow> file_text \<Rightarrow> session \<Rightarrow> outcome \<times> file_text \<times> session" where
  "signup_commit e req_body users file s =
     (case bcrypt_hash e (get req_body ''password'') of
        None \<Rightarrow> (Escapes, file, s)
      | Some password_hash \<Rightarrow>
          (Response 200 Success_body, writeAll (users @ [new_user e req_body password_hash]), s))"

text \<open>\<^verbatim>\<open>/api/signup\<close>, run from its first line to its last with no other request in between.\<close>

definition api_signup ::
  "(env \<Rightarrow> file_text \<Rightarrow> jsobj list option) \<Rightarrow> env \<Rightarrow> jsobj \<Rightarrow> file_text \<Rightarrow> session
     \<Rightarrow> outcome \<times> file_text \<times> session" where
  "api_signup rd e req_body file s =
     (case signup_check rd e req_body file of
        Inl out \<Rightarrow> (out, file, s)
      | Inr users \<Rightarrow> signup_commit e req_body users file s)"

definition api_login ::
  "(env \<Rightarrow> file_text \<Rightarrow> jsobj list option) \<Rightarrow> env \<Rightarrow> jsobj \<Rightarrow> file_text \<Rightarrow> session
     \<Rightarrow> outcome \<times> file_text \<times> session" where
  "api_login rd e req_body file s =
     (case rd e file of
        None \<Rightarrow> (Escapes, file, s)
      | Some users \<Rightarrow>
          (case find (\<lambda>u. get u ''email'' = get req_body ''email'') users of
             None \<Rightarrow> (Response 400 (Error_body ''Invalid credentials''), file, s)
           | Some user \<Rightarrow>
               (case bcrypt_compare e (get req_body ''password'') (get user ''password_hash'') of
                  None \<Rightarrow> (Escapes, file, s)
                | Some match \<Rightarrow>
                    if \<not> match then (Response 400 (Error_body ''Invalid credentials''), file, s)
                    else (Response 200 Success_body, file, s\<lparr>userId := get user ''id''\<rparr>))))"

definition api_me ::
  "(env \<Rightarrow> file_text \<Rightarrow> jsobj list option) \<Rightarrow> env \<Rightarrow> file_text \<Rightarrow> session
     \<Rightarrow> outcome \<times> file_text \<times> session" where
  "api_me rd e file s =
     (case rd e file of
        None \<Rightarrow> (Escapes, file, s)
      | Some users \<Rightarrow>
          (case find (\<lambda>u. get u ''id'' = userId s) users of
             None \<Rightarrow> (Response 401 (Error_body ''Not logged in''), file, s)
           | Some user \<Rightarrow>
               (Response 200 (User_body (JSON_stringify (rest_without ''password_hash'' user))),
                file, s)))"

definition api_logout :: "file_text \<Rightarrow> session \<Rightarrow> outcome \<times> file_text \<times> session" where
  "api_logout file s = (Response 200 Success_body, file, destroy s)"

section \<open>The handlers of the server in \<^verbatim>\<open>src/unnamed/part_001\<close>\<close>

text \<open>
  The later revision: \<^verbatim>\<open>/api/signup\<close> and \<^verbatim>\<open>/api/login\<close> run inside \<^verbatim>\<open>try\<close> and answer
  500 to every exception, signup logs the new user in, and \<^verbatim>\<open>/api/me\<close> checks the
  session first and destroys a session whose user is not in the file.
\<close>

definition signup_check_p1 ::
  "(env \<Rightarrow> file_text \<Rightarrow> jsobj list option) \<Rightarrow> env \<Rightarrow> jsobj \<Rightarrow> file_text \<Rightarrow> outcome + jsobj list" where
  "signup_check_p1 rd e req_body file =
     (case rd e file of
        None \<Rightarrow> Inl (Response 500 (Error_body ''Server error''))
      | Some users \<Rightarrow>
          (case find (\<lambda>u. get u ''email'' = get req_body ''email'') users of
             Some u \<Rightarrow> Inl (Response 400 (Error_body ''Email already exists''))
           | None \<Rightarrow> Inr users))"

definition signup_commit_p1 ::
  "env \<Rightarrow> jsobj \<Rightarrow> jsobj list \<Rightarrow> file_text \<Rightarrow> session \<Rightarrow> outcome \<times> file_text \<times> session" where
  "signup_commit_p1 e req_body users file s =
     (case bcrypt_hash e (get req_body ''password'') of
        None \<Rightarrow> (Response 500 (Error_body ''Server error''), file, s)
      | Some password_hash \<Rightarrow>
          (let user = new_user e req_body password_hash
           in (Response 200 Success_body, writeAll (users @ [user]), s\<lparr>userId := get user ''id''\<rparr>)))"

definition api_signup_p1 ::
  "(env \<Rightarrow> file_text \<Rightarrow> jsobj list option) \<Rightarrow> env \<Rightarrow> jsobj \<Rightarrow> file_text \<Rightarrow> session
     \<Rightarrow> outcome \<times> file_text \<times> session" where
  "api_signup_p1 rd e req_body file s =
     (case signup_check_p1 rd e req_body file of
        Inl out \<Rightarrow> (out, file, s)
      | Inr users \<Rightarrow> signup_commit_p1 e req_body users file s)"

definition api_login_p1 ::
  "(env \<Rightarrow> file_text \<Rightarrow> jsobj list option) \<Rightarrow> env \<Rightarrow> jsobj \<Rightarrow> file_text \<Rightarrow> session
     \<Rightarrow> outcome \<times> file_text \<times> session" where
  "api_login_p1 rd e req_body file s =
     (case rd e file of
        None \<Rightarrow> (Response 500 (Error_body ''Server error''), file, s)
      | Some users \<Rightarrow>
          (case find (\<lambda>u. get u ''email'' = get req_body ''email'') users of
             None \<Rightarrow> (Response 400 (Error_body ''Invalid credentials''), file, s)
           | Some user \<Rightarrow>
               (case bcrypt_compare e (get req_body ''password'') (get user ''password_hash'') of
                  None \<Rightarrow> (Response 500 (Error_body ''Server error''), file, s)
                | Some match \<Rightarrow>
                    if \<not> match then (Response 400 (Error_body ''Invalid credentials''), file, s)
                    else (Response 200 Success_body, file, s\<lparr>userId := get user ''id''\<rparr>))))"

definition api_me_p1 ::
  "(env \<Rightarrow> file_text \<Rightarrow> jsobj list option) \<Rightarrow> env \<Rightarrow> file_text \<Rightarrow> session
     \<Rightarrow> outcome \<times> file_text \<times> session" where
  "api_me_p1 rd e file s =
     (if \<not> truthy (userId s) then (Response 401 (Error_body ''Not logged in''), file, s)
      else case rd e file of
             None \<Rightarrow> (Escapes, file, s)
           | Some users \<Rightarrow>
               (case find (\<lambda>u. get u ''id'' = userId s) users of
                  None \<Rightarrow> (Response 401 (Error_body ''User not found''), file, destroy s)
                | Some user \<Rightarrow>
                    (Response 200 (User_body (JSON_stringify (rest_without ''password_hash'' user))),
                     file, s)))"

definition api_logout_p1 :: "file_text \<Rightarrow> session \<Rightarrow> outcome \<times> file_text \<times> session" where
  "api_logout_p1 file s = (Response 200 Success_body, file, destroy s)"

section \<open>Observing the file\<close>

text \<open>The user records that a file holds: none unless its text is an array.\<close>

definition file_users :: "file_text \<Rightarrow> jsobj list" where
  "file_users file = (case file of Json_array users \<Rightarrow> users | _ \<Rightarrow> [])"

text \<open>The number of records whose \<^verbatim>\<open>email\<close> is \<^verbatim>\<open>===\<close> to a value, as the handlers compare.\<close>

definition count_email :: "jsval \<Rightarrow> file_text \<Rightarrow> nat" where
  "count_email v file = length (filter (\<lambda>u. get u ''email'' = v) (file_users file))"

section \<open>The specification's comparison of emails\<close>

text \<open>
  The specification compares emails without regard to letter case. The source has no such
  comparison; the three definitions below follow the specification's words and serve to
  state what it asks for.
\<close>

definition spec_lower_char :: "char \<Rightarrow> char" where
  "spec_lower_char c =
     (case map_of (zip ''ABCDEFGHIJKLMNOPQRSTUVWXYZ'' ''abcdefghijklmnopqrstuvwxyz'') c of
        Some l \<Rightarrow> l
      | None \<Rightarrow> c)"

definition spec_same_email_ci :: "jsval \<Rightarrow> jsval \<Rightarrow> bool" where
  "spec_same_email_ci a b =
     (case (a, b) of
        (JStr x, JStr y) \<Rightarrow> map spec_lower_char x = map spec_lower_char y
      | _ \<Rightarrow> a = b)"

definition spec_count_email_ci :: "jsval \<Rightarrow> file_text \<Rightarrow> nat" where
  "spec_count_email_ci v file =
     length (filter (\<lambda>u. spec_same_email_ci (get u ''email'') v) (file_users file))"

section \<open>Example data\<close>

text \<open>
  A stand-in for the \<^verbatim>\<open>bcrypt\<close> package, used only to run the handlers on concrete
  requests: the hash of a string is the string behind a fixed prefix, every other value
  is rejected.
\<close>

definition example_hash :: "jsval \<Rightarrow> string option" where
  "example_hash v = (case v of JStr p \<Rightarrow> Some (''$2b$10$'' @ p) | _ \<Rightarrow> None)"

definition example_compare :: "jsval \<Rightarrow> jsval \<Rightarrow> bool option" where
  "example_compare v h =
     (case (v, h) of (JStr p, JStr x) \<Rightarrow> Some (x = ''$2b$10$'' @ p) | _ \<Rightarrow> None)"

text \<open>An environment in which the file can be read and \<^verbatim>\<open>uuidv4()\<close> returns \<open>uid\<close>.\<close>

definition example_env :: "string \<Rightarrow> env" where
  "example_env uid =
     \<lparr>read_throws = False, uuidv4 = uid,
      bcrypt_hash = example_hash, bcrypt_compare = example_compare\<rparr>"

text \<open>A request body with an email and a password.\<close>

definition credentials :: "string \<Rightarrow> string \<Rightarrow> jsobj" where
  "credentials email password = [''email'' \<mapsto> JStr email, ''password'' \<mapsto> JStr password]"

text \<open>
  A stored record for \<^verbatim>\<open>u@test.com\<close> with the password \<^verbatim>\<open>Secret123!\<close>, which carries
  an \<^verbatim>\<open>email_verified\<close> property set to \<^verbatim>\<open>false\<close>.
\<close>

definition example_user :: jsobj where
  "example_user =
     [''id'' \<mapsto> JStr ''id-1'',
      ''email'' \<mapsto> JStr ''u@test.com'',
      ''password_hash'' \<mapsto> JStr ''$2b$10$Secret123!'',
      ''email_verified'' \<mapsto> JBool False]"

section \<open>Auxiliary facts\<close>

lemma get_JSON_stringify: "get (JSON_stringify obj) k = get obj k"
  by (simp add: get_def JSON_stringify_def split: option.splits)

lemma find_None_filter: "find P xs = None \<Longrightarrow> filter P xs = []"
  by (induction xs) (auto split: if_splits)

lemma filter_JSON_stringify:
  "filter (\<lambda>u. get u k = v) (map JSON_stringify users)
     = map JSON_stringify (filter (\<lambda>u. get u k = v) users)"
  by (induction users) (simp_all add: get_JSON_stringify)

lemma get_new_user_email: "get (new_user e req_body h) ''email'' = get req_body ''email''"
  by (simp add: new_user_def get_def)

lemma get_new_user_id: "get (new_user e req_body h) ''id'' = JStr (uuidv4 e)"
  by (simp add: new_user_def get_def)

text \<open>Either \<^verbatim>\<open>readAll\<close> returns what \<^verbatim>\<open>writeAll\<close> wrote, when the read does not fail.\<close>

lemma read_written:
  "rd = readAll \<or> rd = readAll_p1 \<Longrightarrow> \<not> read_throws e \<Longrightarrow>
     rd e (writeAll users) = Some (map JSON_stringify users)"
  by (auto simp: readAll_def readAll_p1_def writeAll_def)

text \<open>Either \<^verbatim>\<open>readAll\<close> returns the records of the file or, after a failure, none.\<close>

lemma read_cases:
  "rd = readAll \<or> rd = readAll_p1 \<Longrightarrow> rd e file = Some users \<Longrightarrow>
     users = file_users file \<or> users = []"
  by (auto simp: readAll_def readAll_p1_def file_users_def split: if_splits file_text.splits)

text \<open>What a successful signup has done.\<close>

lemma signup_success:
  "api_signup rd e req_body file s = (Response 200 Success_body, file', s') \<Longrightarrow>
     \<exists>users h. rd e file = Some users
        \<and> find (\<lambda>u. get u ''email'' = get req_body ''email'') users = None
        \<and> bcrypt_hash e (get req_body ''password'') = Some h
        \<and> file' = writeAll (users @ [new_user e req_body h]) \<and> s' = s"
  by (auto simp: api_signup_def signup_check_def signup_commit_def
      split: option.splits sum.splits)

lemma signup_p1_success:
  "api_signup_p1 rd e req_body file s = (Response 200 Success_body, file', s') \<Longrightarrow>
     \<exists>users h. rd e file = Some users
        \<and> find (\<lambda>u. get u ''email'' = get req_body ''email'') users = None
        \<and> bcrypt_hash e (get req_body ''password'') = Some h
        \<and> file' = writeAll (users @ [new_user e req_body h])
        \<and> s' = s\<lparr>userId := JStr (uuidv4 e)\<rparr>"
  by (auto simp: api_signup_p1_def signup_check_p1_def signup_commit_p1_def Let_def
        get_new_user_id
      split: option.splits sum.splits)

text \<open>A signup that does not answer 200 leaves the file as it was.\<close>

lemma signup_failure_file:
  "fst (api_signup rd e req_body file s) \<noteq> Response 200 Success_body \<Longrightarrow>
     fst (snd (api_signup rd e req_body file s)) = file"
  "fst (api_signup_p1 rd e req_body file s) \<noteq> Response 200 Success_body \<Longrightarrow>
     fst (snd (api_signup_p1 rd e req_body file s)) = file"
  by (auto simp: api_signup_def signup_check_def signup_commit_def
        api_signup_p1_def signup_check_p1_def signup_commit_p1_def Let_def
      split: option.splits sum.splits)

lemma written_found:
  assumes "get req_body2 ''email'' = get req_body ''email''"
  shows "find (\<lambda>u. get u ''email'' = get req_body2 ''email'')
           (map JSON_stringify (users @ [new_user e req_body h])) \<noteq> None"
proof -
  have "get (JSON_stringify (new_user e req_body h)) ''email'' = get req_body2 ''email''"
    using assms by (simp add: get_JSON_stringify get_new_user_email)
  then show ?thesis
    by (auto simp: find_None_iff)
qed

lemma written_count:
  assumes "find (\<lambda>u. get u ''email'' = get req_body ''email'') users = None"
  shows "count_email (get req_body ''email'') (writeAll (users @ [new_user e req_body h])) = 1"
  using assms
  by (simp add: count_email_def file_users_def writeAll_def filter_JSON_stringify
        find_None_filter get_JSON_stringify get_new_user_email)

lemma profile_no_hash:
  "JSON_stringify (rest_without ''password_hash'' user) ''password_hash'' = None"
  by (simp add: JSON_stringify_def rest_without_def)

lemma profile_other:
  "k \<noteq> ''password_hash'' \<Longrightarrow>
     get (JSON_stringify (rest_without ''password_hash'' user)) k = get user k"
  by (simp add: get_JSON_stringify) (simp add: get_def rest_without_def)

lemma find_id_truthy:
  "\<forall>u\<in>set users. truthy (get u ''id'') \<Longrightarrow>
     find (\<lambda>u. get u ''id'' = v) users = Some user \<Longrightarrow> truthy v"
  by (auto simp: find_Some_iff)

text \<open>
  Two invariants of the file under signup, run without another request in between: the
  stored \<^verbatim>\<open>id\<close>s stay truthy when \<^verbatim>\<open>uuidv4()\<close> returns a non-empty string, and the
  stored emails stay pairwise different.
\<close>

lemma signup_keeps_ids:
  assumes rd: "rd = readAll \<or> rd = readAll_p1"
      and ids: "\<forall>u\<in>set (file_users file). truthy (get u ''id'')"
      and uid: "uuidv4 e \<noteq> []"
  shows "\<forall>u\<in>set (file_users (fst (snd (api_signup rd e req_body file s)))).
           truthy (get u ''id'')"
    and "\<forall>u\<in>set (file_users (fst (snd (api_signup_p1 rd e req_body file s)))).
           truthy (get u ''id'')"
proof -
  have written: "\<forall>u\<in>set (file_users (writeAll (users @ [new_user e req_body h]))).
                   truthy (get u ''id'')"
    if "rd e file = Some users" for users h
  proof -
    have "users = file_users file \<or> users = []"
      using rd that by (rule read_cases)
    then have "\<forall>u\<in>set users. truthy (get u ''id'')"
      using ids by auto
    then show ?thesis
      using uid by (auto simp: file_users_def writeAll_def get_JSON_stringify get_new_user_id)
  qed
  show "\<forall>u\<in>set (file_users (fst (snd (api_signup rd e req_body file s)))).
           truthy (get u ''id'')"
  proof (cases "fst (api_signup rd e req_body file s) = Response 200 Success_body")
    case True
    then obtain file' s' where
      "api_signup rd e req_body file s = (Response 200 Success_body, file', s')"
      by (metis prod.collapse)
    with signup_success written show ?thesis
      by fastforce
  next
    case False
    then show ?thesis
      using ids by (simp add: signup_failure_file)
  qed
  show "\<forall>u\<in>set (file_users (fst (snd (api_signup_p1 rd e req_body file s)))).
           truthy (get u ''id'')"
  proof (cases "fst (api_signup_p1 rd e req_body file s) = Response 200 Success_body")
    case True
    then obtain file' s' where
      "api_signup_p1 rd e req_body file s = (Response 200 Success_body, file', s')"
      by (metis prod.collapse)
    with signup_p1_success written show ?thesis
      by fastforce
  next
    case False
    then show ?thesis
      using ids by (simp add: signup_failure_file)
  qed
qed

lemma signup_keeps_emails_distinct:
  assumes rd: "rd = readAll \<or> rd = readAll_p1"
      and dist: "distinct (map (\<lambda>u. get u ''email'') (file_users file))"
  shows "distinct (map (\<lambda>u. get u ''email'')
           (file_users (fst (snd (api_signup rd e req_body file s)))))"
    and "distinct (map (\<lambda>u. get u ''email'')
           (file_users (fst (snd (api_signup_p1 rd e req_body file s)))))"
proof -
  have written: "distinct (map (\<lambda>u. get u ''email'')
                   (file_users (writeAll (users @ [new_user e req_body h]))))"
    if "rd e file = Some users"
      and "find (\<lambda>u. get u ''email'' = get req_body ''email'') users = None" for users h
  proof -
    have "users = file_users file \<or> users = []"
      using rd that(1) by (rule read_cases)
    then have "distinct (map (\<lambda>u. get u ''email'') users)"
      using dist by auto
    moreover have "get req_body ''email'' \<notin> (\<lambda>u. get u ''email'') ` set users"
      using that(2) by (auto simp: find_None_iff)
    ultimately show ?thesis
      by (simp add: file_users_def writeAll_def get_JSON_stringify get_new_user_email comp_def)
  qed
  show "distinct (map (\<lambda>u. get u ''email'')
           (file_users (fst (snd (api_signup rd e req_body file s)))))"
  proof (cases "fst (api_signup rd e req_body file s) = Response 200 Success_body")
    case True
    then obtain file' s' where
      "api_signup rd e req_body file s = (Response 200 Success_body, file', s')"
      by (metis prod.collapse)
    with signup_success written show ?thesis
      by fastforce
  next
    case False
    then show ?thesis
      using dist by (simp add: signup_failure_file)
  qed
  show "distinct (map (\<lambda>u. get u ''email'')
           (file_users (fst (snd (api_signup_p1 rd e req_body file s)))))"
  proof (cases "fst (api_signup_p1 rd e req_body file s) = Response 200 Success_body")
    case True
    then obtain file' s' where
      "api_signup_p1 rd e req_body file s = (Response 200 Success_body, file', s')"
      by (metis prod.collapse)
    with signup_p1_success written show ?thesis
      by fastforce
  next
    case False
    then show ?thesis
      using dist by (simp add: signup_failure_file)
  qed
qed


section \<open>Signup and the uniqueness of emails\<close>

text \<open>
  Claim C1, as the specification states it, fails on the code. Both signup handlers look
  for the email with \<^verbatim>\<open>u.email === email\<close>, which distinguishes letter case: on an empty
  file the signup of \<^verbatim>\<open>a@x.com\<close> succeeds, the following signup of \<^verbatim>\<open>A@X.com\<close> succeeds
  too, and the file then holds two records whose emails are equal up to letter case.
\<close>

theorem signup_letter_case_counterexample:
  "fst (api_signup readAll (example_env ''id-1'') (credentials ''a@x.com'' ''Secret123!'')
          (Json_array []) \<lparr>userId = JUndefined\<rparr>) = Response 200 Success_body
   \<and> fst (api_signup readAll (example_env ''id-2'') (credentials ''A@X.com'' ''Secret123!'')
          (fst (snd (api_signup readAll (example_env ''id-1'')
             (credentials ''a@x.com'' ''Secret123!'') (Json_array []) \<lparr>userId = JUndefined\<rparr>)))
          \<lparr>userId = JUndefined\<rparr>) = Response 200 Success_body
   \<and> spec_same_email_ci (JStr ''a@x.com'') (JStr ''A@X.com'')
   \<and> spec_count_email_ci (JStr ''a@x.com'')
         (fst (snd (api_signup readAll (example_env ''id-2'')
            (credentials ''A@X.com'' ''Secret123!'')
            (fst (snd (api_signup readAll (example_env ''id-1'')
               (credentials ''a@x.com'' ''Secret123!'') (Json_array []) \<lparr>userId = JUndefined\<rparr>)))
            \<lparr>userId = JUndefined\<rparr>))) = 2"
  by (simp add: api_signup_def signup_check_def signup_commit_def readAll_def writeAll_def
        new_user_def get_def JSON_stringify_def example_env_def example_hash_def
        credentials_def file_users_def spec_count_email_ci_def spec_same_email_ci_def
        spec_lower_char_def)

text \<open>
  Claim C1, amended to the comparison the code makes. For every file and every two signup
  calls whose emails are the same value: when the first call succeeds and the second call
  can read the file, the second call answers 400 \<^verbatim>\<open>Email already exists\<close>, leaves the file
  and its caller's session as they were, and exactly one record of the file has that email.
  This holds for the handler of \<^verbatim>\<open>server.js\<close> and for the one of \<^verbatim>\<open>part_001\<close>, with
  either store module.
\<close>

theorem signup_same_email_twice:
  assumes rd: "rd = readAll \<or> rd = readAll_p1"
      and readable: "\<not> read_throws e2"
      and same: "get req_body2 ''email'' = get req_body1 ''email''"
  shows "(api_signup rd e1 req_body1 file s = (Response 200 Success_body, file1, s1) \<longrightarrow>
            api_signup rd e2 req_body2 file1 s2
              = (Response 400 (Error_body ''Email already exists''), file1, s2)
            \<and> count_email (get req_body1 ''email'') file1 = 1)
       \<and> (api_signup_p1 rd e1 req_body1 file s = (Response 200 Success_body, file1, s1) \<longrightarrow>
            api_signup_p1 rd e2 req_body2 file1 s2
              = (Response 400 (Error_body ''Email already exists''), file1, s2)
            \<and> count_email (get req_body1 ''email'') file1 = 1)"
proof (intro conjI impI)
  assume "api_signup rd e1 req_body1 file s = (Response 200 Success_body, file1, s1)"
  then obtain users h where
    none: "find (\<lambda>u. get u ''email'' = get req_body1 ''email'') users = None"
    and file1: "file1 = writeAll (users @ [new_user e1 req_body1 h])"
    using signup_success by blast
  have "rd e2 file1 = Some (map JSON_stringify (users @ [new_user e1 req_body1 h]))"
    unfolding file1 using rd readable by (rule read_written)
  with written_found [OF same, of users e1 h]
  show "api_signup rd e2 req_body2 file1 s2
          = (Response 400 (Error_body ''Email already exists''), file1, s2)"
    by (auto simp: api_signup_def signup_check_def split: option.splits)
  show "count_email (get req_body1 ''email'') file1 = 1"
    unfolding file1 using none by (rule written_count)
next
  assume "api_signup_p1 rd e1 req_body1 file s = (Response 200 Success_body, file1, s1)"
  then obtain users h where
    none: "find (\<lambda>u. get u ''email'' = get req_body1 ''email'') users = None"
    and file1: "file1 = writeAll (users @ [new_user e1 req_body1 h])"
    using signup_p1_success by blast
  have "rd e2 file1 = Some (map JSON_stringify (users @ [new_user e1 req_body1 h]))"
    unfolding file1 using rd readable by (rule read_written)
  with written_found [OF same, of users e1 h]
  show "api_signup_p1 rd e2 req_body2 file1 s2
          = (Response 400 (Error_body ''Email already exists''), file1, s2)"
    by (auto simp: api_signup_p1_def signup_check_p1_def split: option.splits)
  show "count_email (get req_body1 ''email'') file1 = 1"
    unfolding file1 using none by (rule written_count)
qed

theorem signup_same_email_twice_witness:
  "api_signup readAll (example_env ''id-1'') (credentials ''a@x.com'' ''Secret123!'')
      (Json_array []) \<lparr>userId = JUndefined\<rparr>
     = (Response 200 Success_body,
        writeAll [new_user (example_env ''id-1'') (credentials ''a@x.com'' ''Secret123!'')
                    ''$2b$10$Secret123!''],
        \<lparr>userId = JUndefined\<rparr>)
   \<and> api_signup readAll (example_env ''id-2'') (credentials ''a@x.com'' ''other'')
        (writeAll [new_user (example_env ''id-1'') (credentials ''a@x.com'' ''Secret123!'')
                    ''$2b$10$Secret123!''])
        \<lparr>userId = JUndefined\<rparr>
     = (Response 400 (Error_body ''Email already exists''),
        writeAll [new_user (example_env ''id-1'') (credentials ''a@x.com'' ''Secret123!'')
                    ''$2b$10$Secret123!''],
        \<lparr>userId = JUndefined\<rparr>)
   \<and> count_email (JStr ''a@x.com'')
        (writeAll [new_user (example_env ''id-1'') (credentials ''a@x.com'' ''Secret123!'')
                    ''$2b$10$Secret123!'']) = 1"
proof -
  have rd: "readAll = readAll \<or> readAll = readAll_p1"
    by simp
  have readable: "\<not> read_throws (example_env ''id-2'')"
    by (simp add: example_env_def)
  have same: "get (credentials ''a@x.com'' ''other'') ''email''
                = get (credentials ''a@x.com'' ''Secret123!'') ''email''"
    by (simp add: get_def credentials_def)
  have email: "get (credentials ''a@x.com'' ''Secret123!'') ''email'' = JStr ''a@x.com''"
    by (simp add: get_def credentials_def)
  have first: "api_signup readAll (example_env ''id-1'') (credentials ''a@x.com'' ''Secret123!'')
      (Json_array []) \<lparr>userId = JUndefined\<rparr>
     = (Response 200 Success_body,
        writeAll [new_user (example_env ''id-1'') (credentials ''a@x.com'' ''Secret123!'')
                    ''$2b$10$Secret123!''],
        \<lparr>userId = JUndefined\<rparr>)"
    by (simp add: api_signup_def signup_check_def signup_commit_def readAll_def
          example_env_def example_hash_def credentials_def get_def)
  show ?thesis
    using first email
      signup_same_email_twice [OF rd readable same, of "example_env ''id-1''" "Json_array []"
        "\<lparr>userId = JUndefined\<rparr>"
        "writeAll [new_user (example_env ''id-1'') (credentials ''a@x.com'' ''Secret123!'')
                    ''$2b$10$Secret123!'']"
        "\<lparr>userId = JUndefined\<rparr>" "\<lparr>userId = JUndefined\<rparr>"]
    by simp
qed

text \<open>
  Claim C10. When signup answers that the email already exists, the file and the session
  are what they were before the call: nothing is written on that path. This holds for the
  handler of \<^verbatim>\<open>server.js\<close> and for the one of \<^verbatim>\<open>part_001\<close>, with either store module.
\<close>

theorem signup_duplicate_writes_nothing:
  "(fst (api_signup rd e req_body file s) = Response 400 (Error_body ''Email already exists'')
      \<longrightarrow> snd (api_signup rd e req_body file s) = (file, s))
   \<and> (fst (api_signup_p1 rd e req_body file s) = Response 400 (Error_body ''Email already exists'')
      \<longrightarrow> snd (api_signup_p1 rd e req_body file s) = (file, s))"
  by (auto simp: api_signup_def signup_check_def signup_commit_def
        api_signup_p1_def signup_check_p1_def signup_commit_p1_def Let_def
      split: option.splits sum.splits)

theorem signup_duplicate_writes_nothing_witness:
  "fst (api_signup readAll (example_env ''id-2'') (credentials ''u@test.com'' ''pw'')
          (Json_array [example_user]) \<lparr>userId = JUndefined\<rparr>)
     = Response 400 (Error_body ''Email already exists'')
   \<and> snd (api_signup readAll (example_env ''id-2'') (credentials ''u@test.com'' ''pw'')
          (Json_array [example_user]) \<lparr>userId = JUndefined\<rparr>)
     = (Json_array [example_user], \<lparr>userId = JUndefined\<rparr>)
   \<and> fst (api_signup_p1 readAll (example_env ''id-2'') (credentials ''u@test.com'' ''pw'')
          (Json_array [example_user]) \<lparr>userId = JUndefined\<rparr>)
     = Response 400 (Error_body ''Email already exists'')
   \<and> snd (api_signup_p1 readAll (example_env ''id-2'') (credentials ''u@test.com'' ''pw'')
          (Json_array [example_user]) \<lparr>userId = JUndefined\<rparr>)
     = (Json_array [example_user], \<lparr>userId = JUndefined\<rparr>)"
proof -
  have h: "fst (api_signup readAll (example_env ''id-2'') (credentials ''u@test.com'' ''pw'')
          (Json_array [example_user]) \<lparr>userId = JUndefined\<rparr>)
     = Response 400 (Error_body ''Email already exists'')"
    by (simp add: api_signup_def signup_check_def readAll_def get_def example_env_def
          credentials_def example_user_def)
  have h1: "fst (api_signup_p1 readAll (example_env ''id-2'') (credentials ''u@test.com'' ''pw'')
          (Json_array [example_user]) \<lparr>userId = JUndefined\<rparr>)
     = Response 400 (Error_body ''Email already exists'')"
    by (simp add: api_signup_p1_def signup_check_p1_def readAll_def get_def example_env_def
          credentials_def example_user_def)
  show ?thesis
    using h h1
      signup_duplicate_writes_nothing [of readAll "example_env ''id-2''"
        "credentials ''u@test.com'' ''pw''" "Json_array [example_user]"
        "\<lparr>userId = JUndefined\<rparr>"]
    by simp
qed

text \<open>
  Claim C3 asks that the check for the email and the write are one atomic step. In the code
  they are two steps with the \<^verbatim>\<open>await\<close> on \<^verbatim>\<open>bcrypt.hash\<close> between them, where the event
  loop serves other requests. Two signups with the same email that both reach the
  \<^verbatim>\<open>await\<close> before either resumes both pass the check on the empty file and both answer
  200; the second write replaces the first, so the file ends with the second caller's
  record only.
\<close>

theorem interleaved_signups_both_succeed:
  "signup_check readAll (example_env ''id-1'') (credentials ''a@x.com'' ''pw1'') (Json_array [])
     = Inr []
   \<and> signup_check readAll (example_env ''id-2'') (credentials ''a@x.com'' ''pw2'') (Json_array [])
     = Inr []
   \<and> fst (signup_commit (example_env ''id-1'') (credentials ''a@x.com'' ''pw1'') []
          (Json_array []) \<lparr>userId = JUndefined\<rparr>) = Response 200 Success_body
   \<and> fst (signup_commit (example_env ''id-2'') (credentials ''a@x.com'' ''pw2'') []
          (fst (snd (signup_commit (example_env ''id-1'') (credentials ''a@x.com'' ''pw1'') []
             (Json_array []) \<lparr>userId = JUndefined\<rparr>)))
          \<lparr>userId = JUndefined\<rparr>) = Response 200 Success_body
   \<and> map (\<lambda>u. get u ''id'')
        (file_users (fst (snd (signup_commit (example_env ''id-2'')
          (credentials ''a@x.com'' ''pw2'') []
          (fst (snd (signup_commit (example_env ''id-1'') (credentials ''a@x.com'' ''pw1'') []
             (Json_array []) \<lparr>userId = JUndefined\<rparr>)))
          \<lparr>userId = JUndefined\<rparr>)))) = [JStr ''id-2'']"
  by (simp add: signup_check_def signup_commit_def readAll_def writeAll_def new_user_def
        get_def JSON_stringify_def example_env_def example_hash_def credentials_def
        file_users_def)

text \<open>
  Claim C6, as the specification states it, fails on the handler of \<^verbatim>\<open>part_001\<close>, which
  logs the new user in: after a successful signup the caller's session carries the new
  user's \<^verbatim>\<open>id\<close>.
\<close>

theorem signup_auto_login_counterexample:
  "fst (api_signup_p1 readAll_p1 (example_env ''id-1'') (credentials ''u@test.com'' ''Secret123!'')
          (Json_array []) \<lparr>userId = JUndefined\<rparr>) = Response 200 Success_body
   \<and> snd (snd (api_signup_p1 readAll_p1 (example_env ''id-1'')
          (credentials ''u@test.com'' ''Secret123!'')
          (Json_array []) \<lparr>userId = JUndefined\<rparr>)) = \<lparr>userId = JStr ''id-1''\<rparr>"
  by (simp add: api_signup_p1_def signup_check_p1_def signup_commit_p1_def readAll_p1_def
        new_user_def get_def example_env_def example_hash_def credentials_def)

text \<open>
  Claim C6, amended. The signup of \<^verbatim>\<open>server.js\<close> never changes the caller's session. The
  signup of \<^verbatim>\<open>part_001\<close> sets the session's \<^verbatim>\<open>userId\<close> to the new user's \<^verbatim>\<open>id\<close> when it
  answers 200 and leaves the session unchanged otherwise.
\<close>

theorem signup_session_effect:
  "snd (snd (api_signup rd e req_body file s)) = s
   \<and> snd (snd (api_signup_p1 rd e req_body file s))
       = (if fst (api_signup_p1 rd e req_body file s) = Response 200 Success_body
          then s\<lparr>userId := JStr (uuidv4 e)\<rparr> else s)"
  by (auto simp: api_signup_def signup_check_def signup_commit_def
        api_signup_p1_def signup_check_p1_def signup_commit_p1_def Let_def get_new_user_id
      split: option.splits sum.splits)


section \<open>Login\<close>

text \<open>
  Claim C2, as the specification states it, fails on the code. Neither login handler reads
  an \<^verbatim>\<open>email_verified\<close> property and the code has no verification token: for a stored
  record whose hash verifies and whose \<^verbatim>\<open>email_verified\<close> is \<^verbatim>\<open>false\<close>, login answers
  200 and puts the user's \<^verbatim>\<open>id\<close> in the session.
\<close>

theorem login_unverified_counterexample:
  "get example_user ''email_verified'' = JBool False
   \<and> bcrypt_compare (example_env ''x'') (JStr ''Secret123!'') (get example_user ''password_hash'')
       = Some True
   \<and> fst (api_login readAll (example_env ''x'') (credentials ''u@test.com'' ''Secret123!'')
          (Json_array [example_user]) \<lparr>userId = JUndefined\<rparr>) = Response 200 Success_body
   \<and> snd (snd (api_login readAll (example_env ''x'') (credentials ''u@test.com'' ''Secret123!'')
          (Json_array [example_user]) \<lparr>userId = JUndefined\<rparr>)) = \<lparr>userId = JStr ''id-1''\<rparr>
   \<and> fst (api_login_p1 readAll_p1 (example_env ''x'') (credentials ''u@test.com'' ''Secret123!'')
          (Json_array [example_user]) \<lparr>userId = JUndefined\<rparr>) = Response 200 Success_body
   \<and> snd (snd (api_login_p1 readAll_p1 (example_env ''x'')
          (credentials ''u@test.com'' ''Secret123!'')
          (Json_array [example_user]) \<lparr>userId = JUndefined\<rparr>)) = \<lparr>userId = JStr ''id-1''\<rparr>"
  by (simp add: api_login_def api_login_p1_def readAll_def readAll_p1_def get_def
        example_env_def example_compare_def credentials_def example_user_def)

text \<open>
  Claim C2, amended. Whenever the file can be read, the first record with the submitted
  email exists and \<^verbatim>\<open>bcrypt.compare\<close> accepts the submitted password for its hash, login
  answers 200 and sets the session's \<^verbatim>\<open>userId\<close> to that record's \<^verbatim>\<open>id\<close>, whatever else
  the record holds. No login answers anything but 200, 400 \<^verbatim>\<open>Invalid credentials\<close> and,
  for an exception, no answer of its own (\<^verbatim>\<open>server.js\<close>) or 500 \<^verbatim>\<open>Server error\<close>
  (\<^verbatim>\<open>part_001\<close>): there is no answer for an unverified email.
\<close>

theorem login_ignores_email_verified:
  "(rd e file = Some users
      \<and> find (\<lambda>u. get u ''email'' = get req_body ''email'') users = Some user
      \<and> bcrypt_compare e (get req_body ''password'') (get user ''password_hash'') = Some True
     \<longrightarrow> api_login rd e req_body file s
           = (Response 200 Success_body, file, s\<lparr>userId := get user ''id''\<rparr>)
         \<and> api_login_p1 rd e req_body file s
           = (Response 200 Success_body, file, s\<lparr>userId := get user ''id''\<rparr>))
   \<and> fst (api_login rd e req_body file s)
         \<in> {Response 200 Success_body, Response 400 (Error_body ''Invalid credentials''), Escapes}
   \<and> fst (api_login_p1 rd e req_body file s)
         \<in> {Response 200 Success_body, Response 400 (Error_body ''Invalid credentials''),
             Response 500 (Error_body ''Server error'')}"
proof (intro conjI impI)
  assume a: "rd e file = Some users
      \<and> find (\<lambda>u. get u ''email'' = get req_body ''email'') users = Some user
      \<and> bcrypt_compare e (get req_body ''password'') (get user ''password_hash'') = Some True"
  then show "api_login rd e req_body file s
           = (Response 200 Success_body, file, s\<lparr>userId := get user ''id''\<rparr>)"
    by (simp add: api_login_def)
  from a show "api_login_p1 rd e req_body file s
           = (Response 200 Success_body, file, s\<lparr>userId := get user ''id''\<rparr>)"
    by (simp add: api_login_p1_def)
next
  show "fst (api_login rd e req_body file s)
         \<in> {Response 200 Success_body, Response 400 (Error_body ''Invalid credentials''), Escapes}"
    by (simp add: api_login_def split: option.splits)
next
  show "fst (api_login_p1 rd e req_body file s)
         \<in> {Response 200 Success_body, Response 400 (Error_body ''Invalid credentials''),
             Response 500 (Error_body ''Server error'')}"
    by (simp add: api_login_p1_def split: option.splits)
qed

theorem login_ignores_email_verified_witness:
  "api_login readAll (example_env ''x'') (credentials ''u@test.com'' ''Secret123!'')
          (Json_array [example_user]) \<lparr>userId = JUndefined\<rparr>
     = (Response 200 Success_body, Json_array [example_user], \<lparr>userId = JStr ''id-1''\<rparr>)"
proof -
  have h: "readAll (example_env ''x'') (Json_array [example_user]) = Some [example_user]
      \<and> find (\<lambda>u. get u ''email'' = get (credentials ''u@test.com'' ''Secret123!'') ''email'')
           [example_user] = Some example_user
      \<and> bcrypt_compare (example_env ''x'')
           (get (credentials ''u@test.com'' ''Secret123!'') ''password'')
           (get example_user ''password_hash'') = Some True"
    by (simp add: readAll_def example_env_def example_compare_def credentials_def get_def
          example_user_def)
  have i: "get example_user ''id'' = JStr ''id-1''"
    by (simp add: get_def example_user_def)
  show ?thesis
    using h i login_ignores_email_verified [of readAll "example_env ''x''"
        "Json_array [example_user]" "[example_user]"
        "credentials ''u@test.com'' ''Secret123!''" example_user "\<lparr>userId = JUndefined\<rparr>"]
    by simp
qed




text \<open>
  Claim C8, as the specification states it, fails on \<^verbatim>\<open>server.js\<close> with the store module
  \<^verbatim>\<open>simpleStore-DESKTOP-N9FJDQI.js\<close>: its \<^verbatim>\<open>readAll\<close> catches the failure and returns the
  empty list. A login that succeeds while the file can be read is answered 400
  \<^verbatim>\<open>Invalid credentials\<close> when the read fails.
\<close>

theorem login_unreadable_store_counterexample:
  "fst (api_login readAll (example_env ''x'') (credentials ''u@test.com'' ''Secret123!'')
          (Json_array [example_user]) \<lparr>userId = JUndefined\<rparr>) = Response 200 Success_body
   \<and> fst (api_login readAll ((example_env ''x'')\<lparr>read_throws := True\<rparr>)
          (credentials ''u@test.com'' ''Secret123!'')
          (Json_array [example_user]) \<lparr>userId = JUndefined\<rparr>)
       = Response 400 (Error_body ''Invalid credentials'')"
  by (simp add: api_login_def readAll_def get_def example_env_def example_compare_def
        credentials_def example_user_def)

text \<open>
  Claim C8, amended. When the file cannot be read or parsed: with the \<^verbatim>\<open>readAll\<close> of
  \<^verbatim>\<open>simpleStore-DESKTOP-N9FJDQI.js\<close>, which returns the empty list, both login handlers
  answer 400 \<^verbatim>\<open>Invalid credentials\<close>; with the \<^verbatim>\<open>readAll\<close> of \<^verbatim>\<open>part_001\<close>, which throws,
  the login of \<^verbatim>\<open>part_001\<close> answers 500 \<^verbatim>\<open>Server error\<close> and the exception leaves the
  login of \<^verbatim>\<open>server.js\<close> without an answer of its own. The file and the session are
  unchanged in every case.
\<close>

theorem login_storage_failure:
  "read_throws e \<or> file = Malformed \<longrightarrow>
       api_login readAll e req_body file s
         = (Response 400 (Error_body ''Invalid credentials''), file, s)
     \<and> api_login_p1 readAll e req_body file s
         = (Response 400 (Error_body ''Invalid credentials''), file, s)
     \<and> api_login readAll_p1 e req_body file s = (Escapes, file, s)
     \<and> api_login_p1 readAll_p1 e req_body file s
         = (Response 500 (Error_body ''Server error''), file, s)"
proof
  assume failure: "read_throws e \<or> file = Malformed"
  then have caught: "readAll e file = Some []"
    by (auto simp: readAll_def)
  from failure have thrown: "readAll_p1 e file = None"
    by (auto simp: readAll_p1_def)
  show "api_login readAll e req_body file s
         = (Response 400 (Error_body ''Invalid credentials''), file, s)
     \<and> api_login_p1 readAll e req_body file s
         = (Response 400 (Error_body ''Invalid credentials''), file, s)
     \<and> api_login readAll_p1 e req_body file s = (Escapes, file, s)
     \<and> api_login_p1 readAll_p1 e req_body file s
         = (Response 500 (Error_body ''Server error''), file, s)"
    using caught thrown by (simp add: api_login_def api_login_p1_def)
qed

theorem login_storage_failure_witness:
  "api_login readAll ((example_env ''x'')\<lparr>read_throws := True\<rparr>)
          (credentials ''u@test.com'' ''Secret123!'') (Json_array [example_user])
          \<lparr>userId = JUndefined\<rparr>
      = (Response 400 (Error_body ''Invalid credentials''), Json_array [example_user],
         \<lparr>userId = JUndefined\<rparr>)
   \<and> api_login_p1 readAll_p1 ((example_env ''x'')\<lparr>read_throws := True\<rparr>)
          (credentials ''u@test.com'' ''Secret123!'') (Json_array [example_user])
          \<lparr>userId = JUndefined\<rparr>
      = (Response 500 (Error_body ''Server error''), Json_array [example_user],
         \<lparr>userId = JUndefined\<rparr>)"
proof -
  have h: "read_throws ((example_env ''x'')\<lparr>read_throws := True\<rparr>)"
    by simp
  show ?thesis
    using h login_storage_failure [of "(example_env ''x'')\<lparr>read_throws := True\<rparr>"
        "Json_array [example_user]" "credentials ''u@test.com'' ''Secret123!''"
        "\<lparr>userId = JUndefined\<rparr>"]
    by simp
qed


section \<open>The current user\<close>

text \<open>
  Claim C5. Let the file be readable and every stored \<^verbatim>\<open>id\<close> truthy, as for the records
  that signup writes. Then \<^verbatim>\<open>/api/me\<close> either finds a stored record whose \<^verbatim>\<open>id\<close> is the
  session's \<^verbatim>\<open>userId\<close> and answers 200 with that record, without the property
  \<^verbatim>\<open>password_hash\<close> and with every other property as stored, or no record has that
  \<^verbatim>\<open>id\<close> (in particular when the session has none) and the answer is 401. Whatever the
  file and the session, no 200 answer of \<^verbatim>\<open>/api/me\<close> has a \<^verbatim>\<open>password_hash\<close> property.
\<close>

theorem whoAmI_profile_without_hash:
  "(rd e file = Some users \<and> (\<forall>u\<in>set users. truthy (get u ''id'')) \<longrightarrow>
      (\<exists>user info. user \<in> set users \<and> get user ''id'' = userId s
          \<and> api_me rd e file s = (Response 200 (User_body info), file, s)
          \<and> api_me_p1 rd e file s = (Response 200 (User_body info), file, s)
          \<and> info ''password_hash'' = None
          \<and> (\<forall>k. k \<noteq> ''password_hash'' \<longrightarrow> get info k = get user k))
      \<or> ((\<forall>u\<in>set users. get u ''id'' \<noteq> userId s)
          \<and> fst (api_me rd e file s) = Response 401 (Error_body ''Not logged in'')
          \<and> fst (api_me_p1 rd e file s)
               \<in> {Response 401 (Error_body ''Not logged in''),
                   Response 401 (Error_body ''User not found'')}))
   \<and> (fst (api_me rd e file s) = Response 200 (User_body info)
        \<longrightarrow> info ''password_hash'' = None)
   \<and> (fst (api_me_p1 rd e file s) = Response 200 (User_body info)
        \<longrightarrow> info ''password_hash'' = None)"
proof (intro conjI impI)
  assume a: "rd e file = Some users \<and> (\<forall>u\<in>set users. truthy (get u ''id''))"
  show "(\<exists>user info. user \<in> set users \<and> get user ''id'' = userId s
          \<and> api_me rd e file s = (Response 200 (User_body info), file, s)
          \<and> api_me_p1 rd e file s = (Response 200 (User_body info), file, s)
          \<and> info ''password_hash'' = None
          \<and> (\<forall>k. k \<noteq> ''password_hash'' \<longrightarrow> get info k = get user k))
      \<or> ((\<forall>u\<in>set users. get u ''id'' \<noteq> userId s)
          \<and> fst (api_me rd e file s) = Response 401 (Error_body ''Not logged in'')
          \<and> fst (api_me_p1 rd e file s)
               \<in> {Response 401 (Error_body ''Not logged in''),
                   Response 401 (Error_body ''User not found'')})"
  proof (cases "find (\<lambda>u. get u ''id'' = userId s) users")
    case None
    then have "\<forall>u\<in>set users. get u ''id'' \<noteq> userId s"
      by (auto simp: find_None_iff)
    moreover have "fst (api_me rd e file s) = Response 401 (Error_body ''Not logged in'')"
      using a None by (simp add: api_me_def)
    moreover have "fst (api_me_p1 rd e file s)
               \<in> {Response 401 (Error_body ''Not logged in''),
                   Response 401 (Error_body ''User not found'')}"
      using a None by (simp add: api_me_p1_def)
    ultimately show ?thesis by blast
  next
    case (Some user)
    let ?info = "JSON_stringify (rest_without ''password_hash'' user)"
    have t: "truthy (userId s)"
      using a Some find_id_truthy by blast
    have "user \<in> set users" "get user ''id'' = userId s"
      using Some by (auto simp: find_Some_iff)
    moreover have "api_me rd e file s = (Response 200 (User_body ?info), file, s)"
      using a Some by (simp add: api_me_def)
    moreover have "api_me_p1 rd e file s = (Response 200 (User_body ?info), file, s)"
      using a Some t by (simp add: api_me_p1_def)
    moreover have "?info ''password_hash'' = None"
      by (rule profile_no_hash)
    moreover have "\<forall>k. k \<noteq> ''password_hash'' \<longrightarrow> get ?info k = get user k"
      by (simp add: profile_other)
    ultimately show ?thesis by blast
  qed
next
  assume "fst (api_me rd e file s) = Response 200 (User_body info)"
  then show "info ''password_hash'' = None"
    by (auto simp: api_me_def profile_no_hash split: option.splits)
next
  assume "fst (api_me_p1 rd e file s) = Response 200 (User_body info)"
  then show "info ''password_hash'' = None"
    by (auto simp: api_me_p1_def profile_no_hash split: option.splits if_splits)
qed

theorem whoAmI_profile_without_hash_witness:
  "fst (api_me readAll (example_env ''x'') (Json_array [example_user])
          \<lparr>userId = JStr ''id-1''\<rparr>)
     = Response 200 (User_body (JSON_stringify (rest_without ''password_hash'' example_user)))
   \<and> JSON_stringify (rest_without ''password_hash'' example_user) ''password_hash'' = None
   \<and> get example_user ''password_hash'' = JStr ''$2b$10$Secret123!''
   \<and> get (JSON_stringify (rest_without ''password_hash'' example_user)) ''email''
       = JStr ''u@test.com''
   \<and> fst (api_me readAll (example_env ''x'') (Json_array [example_user])
          \<lparr>userId = JUndefined\<rparr>)
     = Response 401 (Error_body ''Not logged in'')"
proof -
  have h: "readAll (example_env ''x'') (Json_array [example_user]) = Some [example_user]
      \<and> (\<forall>u\<in>set [example_user]. truthy (get u ''id''))"
    by (simp add: readAll_def example_env_def get_def example_user_def)
  have r: "fst (api_me readAll (example_env ''x'') (Json_array [example_user])
             \<lparr>userId = JStr ''id-1''\<rparr>)
     = Response 200 (User_body (JSON_stringify (rest_without ''password_hash'' example_user)))"
    by (simp add: api_me_def readAll_def example_env_def get_def example_user_def)
  have n: "get example_user ''id'' \<noteq> userId \<lparr>userId = JUndefined\<rparr>"
    by (simp add: get_def example_user_def)
  have g: "get example_user ''password_hash'' = JStr ''$2b$10$Secret123!''"
    "get (JSON_stringify (rest_without ''password_hash'' example_user)) ''email''
       = JStr ''u@test.com''"
    by (simp_all add: get_def example_user_def JSON_stringify_def rest_without_def)
  show ?thesis
    using h r n g
      whoAmI_profile_without_hash [of readAll "example_env ''x''" "Json_array [example_user]"
        "[example_user]" "\<lparr>userId = JStr ''id-1''\<rparr>"
        "JSON_stringify (rest_without ''password_hash'' example_user)"]
      whoAmI_profile_without_hash [of readAll "example_env ''x''" "Json_array [example_user]"
        "[example_user]" "\<lparr>userId = JUndefined\<rparr>"
        "JSON_stringify (rest_without ''password_hash'' example_user)"]
    by simp
qed

text \<open>
  Claim C9, as the specification states it, fails on the \<^verbatim>\<open>/api/me\<close> of \<^verbatim>\<open>part_001\<close>:
  when the session's \<^verbatim>\<open>userId\<close> is set and no stored record has it, the handler destroys
  the session.
\<close>

theorem me_destroys_session_counterexample:
  "fst (api_me_p1 readAll_p1 (example_env ''x'') (Json_array []) \<lparr>userId = JStr ''id-1''\<rparr>)
     = Response 401 (Error_body ''User not found'')
   \<and> snd (snd (api_me_p1 readAll_p1 (example_env ''x'') (Json_array [])
          \<lparr>userId = JStr ''id-1''\<rparr>))
     = \<lparr>userId = JUndefined\<rparr>"
  by (simp add: api_me_p1_def readAll_p1_def example_env_def destroy_def)

text \<open>
  Claim C9, amended. \<^verbatim>\<open>/api/me\<close> never changes the file. The handler of \<^verbatim>\<open>server.js\<close>
  never changes the session. The handler of \<^verbatim>\<open>part_001\<close> destroys the session exactly
  when it answers 401 \<^verbatim>\<open>User not found\<close>, that is exactly when the session's \<^verbatim>\<open>userId\<close>
  is truthy, \<^verbatim>\<open>readAll\<close> returns and no record of the list it returns has that \<^verbatim>\<open>id\<close>;
  in every other case it leaves the session unchanged. With the \<^verbatim>\<open>readAll\<close> of
  \<^verbatim>\<open>part_001\<close> that is when the file is read and parsed and holds no record with that
  \<^verbatim>\<open>id\<close>. With the \<^verbatim>\<open>readAll\<close> of \<^verbatim>\<open>simpleStore-DESKTOP-N9FJDQI.js\<close> that is when the
  records the file holds, or the empty list after a failed read, have no record with that
  \<^verbatim>\<open>id\<close>: after a failed read the session of every truthy \<^verbatim>\<open>userId\<close> is destroyed, also
  that of a stored user. \<^verbatim>\<open>/api/logout\<close> destroys the session and leaves the file
  unchanged.
\<close>

theorem me_state_effect:
  "snd (api_me rd e file s) = (file, s)
   \<and> fst (snd (api_me_p1 rd e file s)) = file
   \<and> snd (snd (api_me_p1 rd e file s))
       = (if truthy (userId s)
             \<and> (case rd e file of
                   None \<Rightarrow> False
                 | Some users \<Rightarrow> find (\<lambda>u. get u ''id'' = userId s) users = None)
          then destroy s else s)
   \<and> (fst (api_me_p1 rd e file s) = Response 401 (Error_body ''User not found''))
       = (truthy (userId s)
             \<and> (case rd e file of
                   None \<Rightarrow> False
                 | Some users \<Rightarrow> find (\<lambda>u. get u ''id'' = userId s) users = None))
   \<and> snd (snd (api_me_p1 readAll_p1 e file s))
       = (if truthy (userId s) \<and> \<not> read_throws e \<and> file \<noteq> Malformed
             \<and> find (\<lambda>u. get u ''id'' = userId s) (file_users file) = None
          then destroy s else s)
   \<and> snd (snd (api_me_p1 readAll e file s))
       = (if truthy (userId s)
             \<and> find (\<lambda>u. get u ''id'' = userId s)
                 (if read_throws e then [] else file_users file) = None
          then destroy s else s)
   \<and> snd (api_logout file s) = (file, destroy s)
   \<and> snd (api_logout_p1 file s) = (file, destroy s)"
proof (intro conjI)
  show "snd (api_me rd e file s) = (file, s)"
    by (simp add: api_me_def split: option.splits)
  show "fst (snd (api_me_p1 rd e file s)) = file"
    by (simp add: api_me_p1_def split: option.splits)
  show general: "snd (snd (api_me_p1 rd e file s))
       = (if truthy (userId s)
             \<and> (case rd e file of
                   None \<Rightarrow> False
                 | Some users \<Rightarrow> find (\<lambda>u. get u ''id'' = userId s) users = None)
          then destroy s else s)" for rd
    by (simp add: api_me_p1_def split: option.splits)
  show "(fst (api_me_p1 rd e file s) = Response 401 (Error_body ''User not found''))
       = (truthy (userId s)
             \<and> (case rd e file of
                   None \<Rightarrow> False
                 | Some users \<Rightarrow> find (\<lambda>u. get u ''id'' = userId s) users = None))"
    by (simp add: api_me_p1_def split: option.splits)
  show "snd (snd (api_me_p1 readAll_p1 e file s))
       = (if truthy (userId s) \<and> \<not> read_throws e \<and> file \<noteq> Malformed
             \<and> find (\<lambda>u. get u ''id'' = userId s) (file_users file) = None
          then destroy s else s)"
    unfolding general
    by (cases "file") (auto simp: readAll_p1_def file_users_def)
  show "snd (snd (api_me_p1 readAll e file s))
       = (if truthy (userId s)
             \<and> find (\<lambda>u. get u ''id'' = userId s)
                 (if read_throws e then [] else file_users file) = None
          then destroy s else s)"
    unfolding general
    by (cases "file") (auto simp: readAll_def file_users_def)
  show "snd (api_logout file s) = (file, destroy s)"
    by (simp add: api_logout_def)
  show "snd (api_logout_p1 file s) = (file, destroy s)"
    by (simp add: api_logout_p1_def)
qed

end
